theory Spec2Isabelle
  imports Main
begin

section \<open>Exceptions, the outside world and the state of a run\<close>

text \<open>
  The program is a Python 2 script. Every exception it can raise is a value of
  \<open>error\<close>; a function that may raise returns \<open>error + 'a\<close> with \<open>Inl\<close> the
  exception. \<open>UnavailableCardImageException\<close> is the script's own exception and
  carries its message; the others are raised by the interpreter and the libraries.
\<close>

datatype error =
    IOError
  | URLError
  | ValueError
  | IndexError
  | TypeError
  | UnicodeEncodeError
  | UnavailableCardImageException string

text \<open>
  An entry of the program is a Python tuple \<open>(quantity, payload)\<close>: the payload is the
  card name after parsing and the card image after the images are fetched. Quantities
  are Python integers, hence \<open>int\<close>: nothing in the program bounds them from below.
\<close>

type_synonym 'a entry = "int \<times> 'a"

text \<open>
  A raster image (a PIL \<open>Image\<close>) has a size and a colour at every pixel of it. The
  sheet under construction is kept as the size given to \<open>Image.new\<close> and the sequence
  of \<open>paste\<close> calls made on it so far; \<open>getpixel\<close> below reads a pixel off that
  sequence.
\<close>

type_synonym rgb = "nat \<times> nat \<times> nat"

record pil_image =
  im_width :: int
  im_height :: int
  im_pixel :: "int \<Rightarrow> int \<Rightarrow> rgb"

record canvas =
  canvas_width :: int
  canvas_height :: int
  pastes :: "(pil_image \<times> int \<times> int) list"

text \<open>
  What the script takes from outside: the deck files, the card database web site, the
  images behind URLs and the random number generator. The HTML scraping of
  \<open>fetch_card_image_url\<close> and \<open>fetch_basic_land_image_urls\<close> is not modelled: its
  outcome (the value returned, or the exception that escapes) is a field here. The
  outside world answers the same question the same way during one run.
  \<^item> \<open>readlines fname\<close>: \<open>codecs.open(fname, 'r', 'utf-8').readlines()\<close>;
  \<^item> \<open>card_image_url name\<close>: the outcome of \<open>fetch_card_image_url(name)\<close>;
  \<^item> \<open>land_image_urls name\<close>: the value returned by
    \<open>fetch_basic_land_image_urls(name, verbose)\<close>;
  \<^item> \<open>open_image url\<close>: \<open>Image.open(io.BytesIO(download_file(url)))\<close>;
  \<^item> \<open>random k\<close>: the \<open>k\<close>-th number drawn from the generator, from which
    \<open>choice\<close> takes an index;
  \<^item> \<open>antialias\<close>: the pixels \<open>resize\<close> computes with the \<open>ANTIALIAS\<close> filter.
\<close>

record env =
  readlines :: "string \<Rightarrow> error + string list"
  card_image_url :: "string \<Rightarrow> error + string option"
  land_image_urls :: "string \<Rightarrow> error + string list option"
  open_image :: "string \<Rightarrow> error + pil_image"
  random :: "nat \<Rightarrow> nat"
  antialias :: "pil_image \<Rightarrow> int \<times> int \<Rightarrow> int \<Rightarrow> int \<Rightarrow> rgb"

text \<open>
  What a run changes: the lines printed, the number of random draws made, and the files
  saved (path and content, in the order they are written). Two things are taken for
  granted: the standard output can encode every text that \<open>print\<close> is given (a
  terminal in a UTF-8 locale), and every path that \<open>save\<close> is given can be written.
  No property below is about a run where one of them fails.
\<close>

record world =
  stdout :: "string list"
  draws :: nat
  files :: "(string \<times> canvas) list"

text \<open>
  A statement that prints, draws or saves maps the world to its outcome and the world
  after it; when it raises, what it did before stays done.
\<close>

type_synonym 'a io = "world \<Rightarrow> (error + 'a) \<times> world"

definition return_io :: "'a \<Rightarrow> 'a io" where
  "return_io a w = (Inr a, w)"

definition raise :: "error \<Rightarrow> 'a io" where
  "raise e w = (Inl e, w)"

definition and_then :: "'a io \<Rightarrow> ('a \<Rightarrow> 'b io) \<Rightarrow> 'b io" where
  "and_then m f w = (case m w of (Inl e, w') \<Rightarrow> (Inl e, w') | (Inr a, w') \<Rightarrow> f a w')"

definition print_line :: "string \<Rightarrow> unit io" where
  "print_line line w = (Inr (), w\<lparr>stdout := stdout w @ [line]\<rparr>)"

definition when_verbose :: "bool \<Rightarrow> unit io \<Rightarrow> unit io" where
  "when_verbose verbose m = (if verbose then m else return_io ())"

text \<open>
  A \<open>for\<close> loop over a list whose body updates the loop's variables \<open>s\<close>: the first
  exception ends it. \<open>for_each\<close> is the loop of a body that leaves the world alone,
  \<open>for_io\<close> the loop of a body that changes it.
\<close>

primrec for_each :: "'a list \<Rightarrow> ('a \<Rightarrow> 's \<Rightarrow> error + 's) \<Rightarrow> 's \<Rightarrow> error + 's" where
  "for_each [] body s = Inr s"
| "for_each (a # as) body s =
     (case body a s of Inl e \<Rightarrow> Inl e | Inr s' \<Rightarrow> for_each as body s')"

primrec for_io :: "'a list \<Rightarrow> ('a \<Rightarrow> 's \<Rightarrow> 's io) \<Rightarrow> 's \<Rightarrow> 's io" where
  "for_io [] body s w = (Inr s, w)"
| "for_io (a # as) body s w =
     (case body a s w of (Inl e, w') \<Rightarrow> (Inl e, w') | (Inr s', w') \<Rightarrow> for_io as body s' w')"

text \<open>\<open>range(0, n)\<close>: empty when \<open>n\<close> is zero or negative.\<close>

definition range0 :: "int \<Rightarrow> nat list" where
  "range0 n = [0..<nat n]"

section \<open>Text\<close>

text \<open>
  A text is a HOL string, each character standing for the code point of its number: the
  model covers the deck files whose code points are below 256. \<open>isspace\<close> is Python's
  whitespace among these, which \<open>strip\<close> removes at both ends.
\<close>

definition isspace :: "char \<Rightarrow> bool" where
  "isspace c \<longleftrightarrow> (of_char c :: nat) \<in> {9, 10, 11, 12, 13, 28, 29, 30, 31, 32, 133, 160}"

definition isdigit :: "char \<Rightarrow> bool" where
  "isdigit c \<longleftrightarrow> 48 \<le> (of_char c :: nat) \<and> (of_char c :: nat) \<le> 57"

definition strip :: "string \<Rightarrow> string" where
  "strip s = rev (dropWhile isspace (rev (dropWhile isspace s)))"

definition startswith :: "string \<Rightarrow> string \<Rightarrow> bool" where
  "startswith s p \<longleftrightarrow> take (length p) s = p"

text \<open>
  \<open>str(e)\<close> for an exception \<open>e\<close> whose only argument is the text \<open>msg\<close>. The card
  names are \<open>unicode\<close> objects (the deck file is read through \<open>codecs.open\<close>), and so
  is the message built from one. \<open>str\<close> encodes it with the default encoding, ASCII:
  a code point of 128 or more raises \<open>UnicodeEncodeError\<close>.
\<close>

definition str_exception :: "string \<Rightarrow> error + string" where
  "str_exception msg =
     (if list_all (\<lambda>c. (of_char c :: nat) < 128) msg then Inr msg else Inl UnicodeEncodeError)"

text \<open>\<open>line.split(' ', 1)\<close>: cut at the first space, if there is one.\<close>

definition split_space1 :: "string \<Rightarrow> string list" where
  "split_space1 line =
     (if CHR '' '' \<in> set line
      then [takeWhile (\<lambda>c. c \<noteq> CHR '' '') line, tl (dropWhile (\<lambda>c. c \<noteq> CHR '' '') line)]
      else [line])"

text \<open>\<open>s.split('.', 1)[0]\<close>: what stands before the first dot.\<close>

definition before_dot :: "string \<Rightarrow> string" where
  "before_dot s = takeWhile (\<lambda>c. c \<noteq> CHR ''.'') s"

text \<open>
  \<open>int(s)\<close> on a text, by the grammar of its argument: whitespace around, an optional
  sign, then one decimal digit or more, with nothing between the sign and the digits;
  anything else is a \<open>ValueError\<close>, here \<open>None\<close>. The result is not bounded.
\<close>

definition digits_value :: "string \<Rightarrow> nat" where
  "digits_value ds = foldl (\<lambda>n c. 10 * n + (of_char c - 48)) 0 ds"

definition py_int :: "string \<Rightarrow> int option" where
  "py_int s =
     (let t = strip s;
          negative = (t \<noteq> [] \<and> hd t = CHR ''-'');
          ds = (if t \<noteq> [] \<and> (hd t = CHR ''-'' \<or> hd t = CHR ''+'') then tl t else t)
      in if ds \<noteq> [] \<and> list_all isdigit ds
         then Some (if negative then - int (digits_value ds) else int (digits_value ds))
         else None)"

text \<open>The \<open>%d\<close> of a format string.\<close>

fun str_nat :: "nat \<Rightarrow> string" where
  "str_nat n =
     (if n < 10 then [''0123456789'' ! n] else str_nat (n div 10) @ [''0123456789'' ! (n mod 10)])"

declare str_nat.simps [simp del]

definition str_int :: "int \<Rightarrow> string" where
  "str_int i = (if i < 0 then CHR ''-'' # str_nat (nat (- i)) else str_nat (nat i))"

section \<open>The deck parser\<close>

text \<open>
  \<^verbatim>\<open>
  def read_deck(fname):
      with codecs.open(fname, 'r', 'utf-8') as f:
          entries = []
          lines = \
              [l.strip() for l in f.readlines() if not l.startswith('//')
                  and not l.startswith('SB')]
          lines = filter(None, lines)
          for line in lines:
              tokens = line.split(' ', 1)
              entries.append((int(tokens[0]), tokens[1]))
          return entries
  \<close>
  \<open>data_lines\<close> is the value of \<open>lines\<close> when the loop starts. In the loop body
  \<open>int(tokens[0])\<close> is evaluated before \<open>tokens[1]\<close>, so a line that fails both ways
  raises \<open>ValueError\<close>.
\<close>

definition data_lines :: "string list \<Rightarrow> string list" where
  "data_lines ls =
     filter (\<lambda>l. l \<noteq> [])
       (map strip (filter (\<lambda>l. \<not> startswith l ''//'' \<and> \<not> startswith l ''SB'') ls))"

definition read_line :: "string \<Rightarrow> string entry list \<Rightarrow> error + string entry list" where
  "read_line line entries =
     (let tokens = split_space1 line in
      case py_int (tokens ! 0) of
        None \<Rightarrow> Inl ValueError
      | Some quantity \<Rightarrow>
          if length tokens < 2 then Inl IndexError
          else Inr (entries @ [(quantity, tokens ! 1)]))"

definition read_deck :: "env \<Rightarrow> string \<Rightarrow> error + string entry list" where
  "read_deck env fname =
     (case readlines env fname of
        Inl e \<Rightarrow> Inl e
      | Inr ls \<Rightarrow> for_each (data_lines ls) read_line [])"

definition pretty_print_deck :: "string entry list \<Rightarrow> unit io" where
  "pretty_print_deck entries =
     for_io entries
       (\<lambda>entry u. print_line (str_int (fst entry) @ '' x '' @ [CHR 0x27] @ snd entry @ [CHR 0x27]))
       ()"

section \<open>Resolving the images\<close>

text \<open>
  \<^verbatim>\<open>
  def is_basic_land(card_name):
      return card_name in ['Plains', 'Island', 'Swamp', 'Mountain', 'Forest']
  \<close>
\<close>

definition is_basic_land :: "string \<Rightarrow> bool" where
  "is_basic_land card_name \<longleftrightarrow>
     List.member [''Plains'', ''Island'', ''Swamp'', ''Mountain'', ''Forest''] card_name"

definition fetch_card_image_url :: "env \<Rightarrow> string \<Rightarrow> string option io" where
  "fetch_card_image_url env card_name =
     (case card_image_url env card_name of Inl e \<Rightarrow> raise e | Inr url \<Rightarrow> return_io url)"

text \<open>
  \<open>fetch_basic_land_image_urls\<close> lists the URLs it found when \<open>verbose\<close> is set, and
  returns \<open>None\<close> (with nothing printed) when the page has no link for the card.
\<close>

definition fetch_basic_land_image_urls :: "env \<Rightarrow> string \<Rightarrow> bool \<Rightarrow> string list option io" where
  "fetch_basic_land_image_urls env card_name verbose =
     (case land_image_urls env card_name of
        Inl e \<Rightarrow> raise e
      | Inr None \<Rightarrow> return_io None
      | Inr (Some urls) \<Rightarrow>
          and_then
            (when_verbose verbose
               (and_then
                  (print_line (''[VERBOSE] URLs found for card '' @ [CHR 0x27] @ card_name
                     @ [CHR 0x27] @ '':''))
                  (\<lambda>_. for_io urls (\<lambda>url u. print_line (''[VERBOSE] '' @ url)) ())))
            (\<lambda>_. return_io (Some urls)))"

text \<open>
  \<^verbatim>\<open>
  def fetch_image(url):
      try:
          return Image.open(io.BytesIO(download_file(url)))
      except Exception:
          return None
  \<close>
  The URL is \<open>None\<close> when \<open>fetch_card_image_url\<close> found no link; \<open>urlopen(None)\<close>
  raises, so the result is \<open>None\<close> as well.
\<close>

definition fetch_image :: "env \<Rightarrow> string option \<Rightarrow> pil_image option" where
  "fetch_image env url =
     (case url of
        None \<Rightarrow> None
      | Some u \<Rightarrow> (case open_image env u of Inl e \<Rightarrow> None | Inr img \<Rightarrow> Some img))"

text \<open>
  \<open>random.choice(seq)\<close> is \<open>seq[int(random() * len(seq))]\<close>: \<open>len(None)\<close> is a
  \<open>TypeError\<close>, indexing the empty list an \<open>IndexError\<close>; otherwise the element at
  an index below the length, decided by the next random number.
\<close>

definition choice :: "env \<Rightarrow> string list option \<Rightarrow> string io" where
  "choice env seq w =
     (case seq of
        None \<Rightarrow> (Inl TypeError, w)
      | Some [] \<Rightarrow> (Inl IndexError, w)
      | Some (u # us) \<Rightarrow>
          (Inr ((u # us) ! (random env (draws w) mod length (u # us))),
           w\<lparr>draws := Suc (draws w)\<rparr>))"

text \<open>
  \<^verbatim>\<open>
  def fetch_images(entries, randomise_lands, verbose):
      processed_entries = []
      for entry in entries:
          if is_basic_land(entry[1]) and randomise_lands:
              urls = fetch_basic_land_image_urls(entry[1], verbose)
              for i in range(0, entry[0]):
                  chosen_url = choice(urls)
                  if verbose:
                      print '[VERBOSE] Random lands (%s):' % entry[1]
                      print '[VERBOSE] Index %d URL %s' % (i, chosen_url)
                  processed_entries.append((1, fetch_image(chosen_url)))
          else:
              if verbose:
                  print "[VERBOSE] Fetching image for card '%s'..." % entry[1]
              url = fetch_card_image_url(entry[1])
              img = fetch_image(url)
              if not img:
                  raise UnavailableCardImageException(
                      "Could not find an image for card: '%s'!" % entry[1])
              processed_entries.append((entry[0], img))
      return processed_entries
  \<close>
  \<open>fetch_land_copy\<close> is the body of the inner loop and \<open>fetch_entry\<close> the body of
  the outer one; both extend \<open>processed_entries\<close>. An image is a \<open>pil_image option\<close>
  because \<open>fetch_image\<close> may return \<open>None\<close>.
\<close>

definition fetch_land_copy ::
  "env \<Rightarrow> bool \<Rightarrow> string entry \<Rightarrow> string list option \<Rightarrow> nat
   \<Rightarrow> pil_image option entry list \<Rightarrow> pil_image option entry list io"
where
  "fetch_land_copy env verbose entry urls i processed_entries =
     and_then (choice env urls) (\<lambda>chosen_url.
     and_then
       (when_verbose verbose
          (and_then (print_line (''[VERBOSE] Random lands ('' @ snd entry @ ''):''))
             (\<lambda>_. print_line (''[VERBOSE] Index '' @ str_int (int i) @ '' URL '' @ chosen_url))))
       (\<lambda>_. return_io (processed_entries @ [(1, fetch_image env (Some chosen_url))])))"

definition fetch_entry ::
  "env \<Rightarrow> bool \<Rightarrow> bool \<Rightarrow> string entry
   \<Rightarrow> pil_image option entry list \<Rightarrow> pil_image option entry list io"
where
  "fetch_entry env randomise_lands verbose entry processed_entries =
     (if is_basic_land (snd entry) \<and> randomise_lands
      then
        and_then (fetch_basic_land_image_urls env (snd entry) verbose) (\<lambda>urls.
          for_io (range0 (fst entry)) (fetch_land_copy env verbose entry urls) processed_entries)
      else
        and_then
          (when_verbose verbose
             (print_line (''[VERBOSE] Fetching image for card '' @ [CHR 0x27] @ snd entry
                @ [CHR 0x27] @ ''...'')))
          (\<lambda>_. and_then (fetch_card_image_url env (snd entry)) (\<lambda>url.
             (case fetch_image env url of
                None \<Rightarrow>
                  raise (UnavailableCardImageException
                    (''Could not find an image for card: '' @ [CHR 0x27] @ snd entry
                       @ [CHR 0x27] @ ''!''))
              | Some img \<Rightarrow> return_io (processed_entries @ [(fst entry, Some img)])))))"

definition fetch_images ::
  "env \<Rightarrow> string entry list \<Rightarrow> bool \<Rightarrow> bool \<Rightarrow> pil_image option entry list io"
where
  "fetch_images env entries randomise_lands verbose =
     for_io entries (fetch_entry env randomise_lands verbose) []"

section \<open>The deck splitter\<close>

text \<open>
  \<^verbatim>\<open>
  def no_of_cards(entries):
      count = 0
      for entry in entries:
          count += entry[0]
      return count
  \<close>
\<close>

definition no_of_cards :: "'a entry list \<Rightarrow> int" where
  "no_of_cards entries = fold (\<lambda>entry count. count + fst entry) entries 0"

text \<open>
  \<^verbatim>\<open>
  def split_deck_if_necessary(entries):
      decks = []
      current_deck = []
      for entry in entries:
          if no_of_cards(current_deck) + entry[0] > 69:
              decks.append(current_deck)
              current_deck = []
          current_deck.append(entry)
      decks.append(current_deck)
      return decks
  \<close>
  The loop state is the pair \<open>(decks, current_deck)\<close>; \<open>split_step\<close> is one
  iteration of the loop body.
\<close>

definition split_step ::
  "'a entry \<Rightarrow> 'a entry list list \<times> 'a entry list \<Rightarrow> 'a entry list list \<times> 'a entry list"
where
  "split_step entry st =
     (case st of (decks, current_deck) \<Rightarrow>
        (case (if no_of_cards current_deck + fst entry > 69
               then (decks @ [current_deck], [])
               else (decks, current_deck)) of
           (decks, current_deck) \<Rightarrow> (decks, current_deck @ [entry])))"

definition split_deck_if_necessary :: "'a entry list \<Rightarrow> 'a entry list list" where
  "split_deck_if_necessary entries =
     (case fold split_step entries ([], []) of
        (decks, current_deck) \<Rightarrow> decks @ [current_deck])"

text \<open>
  A sheet respects the capacity when its total is at most 69, or when it is one single
  entry that is larger than 69 by itself.
\<close>

definition sheet_ok :: "'a entry list \<Rightarrow> bool" where
  "sheet_ok sheet \<longleftrightarrow>
     no_of_cards sheet \<le> 69 \<or> (length sheet = 1 \<and> 69 < fst (hd sheet))"

section \<open>The sheet compositor\<close>

text \<open>
  \<open>Image.new('RGB', size)\<close> is black. \<open>face.paste(im, (x, y))\<close> takes the size of
  the region from \<open>im\<close> and raises \<open>ValueError\<close> when \<open>im\<close> is \<open>None\<close>; the part
  of the region outside the sheet is cut off. A pixel of the sheet shows the last image
  pasted over it. \<open>im.resize(size, filter)\<close> has the size asked for.
\<close>

definition new_image :: "int \<times> int \<Rightarrow> canvas" where
  "new_image sz = \<lparr>canvas_width = fst sz, canvas_height = snd sz, pastes = []\<rparr>"

definition paste :: "canvas \<Rightarrow> pil_image option \<Rightarrow> int \<times> int \<Rightarrow> error + canvas" where
  "paste face im box =
     (case im of
        None \<Rightarrow> Inl ValueError
      | Some img \<Rightarrow> Inr (face\<lparr>pastes := pastes face @ [(img, box)]\<rparr>))"

definition covers :: "pil_image \<times> int \<times> int \<Rightarrow> int \<Rightarrow> int \<Rightarrow> bool" where
  "covers p px py \<longleftrightarrow>
     (case p of (img, x, y) \<Rightarrow>
        x \<le> px \<and> px < x + im_width img \<and> y \<le> py \<and> py < y + im_height img)"

definition getpixel :: "canvas \<Rightarrow> int \<times> int \<Rightarrow> error + rgb" where
  "getpixel face xy =
     (case xy of (px, py) \<Rightarrow>
        if 0 \<le> px \<and> px < canvas_width face \<and> 0 \<le> py \<and> py < canvas_height face
        then Inr (fold (\<lambda>p colour.
                     if covers p px py
                     then im_pixel (fst p) (px - fst (snd p)) (py - snd (snd p))
                     else colour)
                (pastes face) (0, 0, 0))
        else Inl IndexError)"

definition resize :: "env \<Rightarrow> pil_image \<Rightarrow> int \<times> int \<Rightarrow> pil_image" where
  "resize env img sz =
     \<lparr>im_width = fst sz, im_height = snd sz, im_pixel = antialias env img sz\<rparr>"

definition save :: "canvas \<Rightarrow> string \<Rightarrow> unit io" where
  "save face fpath w = (Inr (), w\<lparr>files := files w @ [(fpath, face)]\<rparr>)"

definition CARDS_PER_ROW :: int where "CARDS_PER_ROW = 10"
definition CARDS_PER_COLUMN :: int where "CARDS_PER_COLUMN = 7"
definition CARD_WIDTH :: int where "CARD_WIDTH = 312"
definition CARD_HEIGHT :: int where "CARD_HEIGHT = 445"

definition cardback_url :: string where
  "cardback_url = ''http://itszn.com/mtg/cardback.jpg''"

text \<open>
  \<^verbatim>\<open>
      current_card_count = 1
      x = 0
      y = 0
      verbose_count = 0
      for entry in entries:
          for i in range(0, entry[0]):
              if verbose:
                  verbose_count += 1
              deck_face.paste(entry[1], (x, y))
              if current_card_count % CARDS_PER_ROW == 0:
                  x = 0
                  y += CARD_HEIGHT
              else:
                  x += CARD_WIDTH
              current_card_count += 1
  \<close>
  The variables of the loops are a record (\<open>cur_x\<close> and \<open>cur_y\<close> are \<open>x\<close> and
  \<open>y\<close>); \<open>stitch_card\<close> is the body of the inner loop and \<open>stitch_cards\<close> the two
  loops.
\<close>

record stitch_state =
  deck_face :: canvas
  current_card_count :: int
  cur_x :: int
  cur_y :: int
  verbose_count :: int

definition stitch_init :: stitch_state where
  "stitch_init =
     \<lparr>deck_face = new_image (CARDS_PER_ROW * CARD_WIDTH, CARDS_PER_COLUMN * CARD_HEIGHT),
      current_card_count = 1, cur_x = 0, cur_y = 0, verbose_count = 0\<rparr>"

definition stitch_card :: "bool \<Rightarrow> pil_image option \<Rightarrow> stitch_state \<Rightarrow> error + stitch_state" where
  "stitch_card verbose img s =
     (let s = (if verbose then s\<lparr>verbose_count := verbose_count s + 1\<rparr> else s) in
      case paste (deck_face s) img (cur_x s, cur_y s) of
        Inl e \<Rightarrow> Inl e
      | Inr face \<Rightarrow>
          (let s = s\<lparr>deck_face := face\<rparr>;
               s = (if current_card_count s mod CARDS_PER_ROW = 0
                    then s\<lparr>cur_x := 0, cur_y := cur_y s + CARD_HEIGHT\<rparr>
                    else s\<lparr>cur_x := cur_x s + CARD_WIDTH\<rparr>)
           in Inr (s\<lparr>current_card_count := current_card_count s + 1\<rparr>)))"

definition stitch_cards ::
  "bool \<Rightarrow> pil_image option entry list \<Rightarrow> stitch_state \<Rightarrow> error + stitch_state"
where
  "stitch_cards verbose entries =
     for_each entries
       (\<lambda>entry. for_each (range0 (fst entry)) (\<lambda>i. stitch_card verbose (snd entry)))"

text \<open>
  \<^verbatim>\<open>
      if verbose:
          print '[VERBOSE] Stiched images count: %d.' % verbose_count
      hidden_card = Image.open(io.BytesIO(
          download_file('http://itszn.com/mtg/cardback.jpg')))
      hidden_card = hidden_card.resize((CARD_WIDTH, CARD_HEIGHT), Image.ANTIALIAS)
      deck_face.paste(hidden_card,
          (CARD_WIDTH * (CARDS_PER_ROW - 1), (CARD_HEIGHT * (CARDS_PER_COLUMN - 1))))
      deck_face.save(output_fpath, 'JPEG', quality=100)
  \<close>
  An exception of the download of the hidden card is not caught. The file saved is
  kept as the sheet itself.
\<close>

definition stitch_deck :: "env \<Rightarrow> pil_image option entry list \<Rightarrow> string \<Rightarrow> bool \<Rightarrow> unit io" where
  "stitch_deck env entries output_fpath verbose =
     (case stitch_cards verbose entries stitch_init of
        Inl e \<Rightarrow> raise e
      | Inr s \<Rightarrow>
          and_then
            (when_verbose verbose
               (print_line (''[VERBOSE] Stiched images count: '' @ str_int (verbose_count s)
                  @ ''.'')))
            (\<lambda>_. case open_image env cardback_url of
                Inl e \<Rightarrow> raise e
              | Inr hidden_card \<Rightarrow>
                  (let hidden_card = resize env hidden_card (CARD_WIDTH, CARD_HEIGHT) in
                   case paste (deck_face s) (Some hidden_card)
                          (CARD_WIDTH * (CARDS_PER_ROW - 1), CARD_HEIGHT * (CARDS_PER_COLUMN - 1)) of
                     Inl e \<Rightarrow> raise e
                   | Inr face \<Rightarrow> save face output_fpath)))"

section \<open>The orchestrator\<close>

text \<open>
  \<^verbatim>\<open>
  def export_deck(entries, basename, verbose):
      decks = split_deck_if_necessary(entries)
      deck_count = 0
      for deck in decks:
          print 'Deck face n. %d size: %d.' % (deck_count, no_of_cards(deck))
          stitch_deck(deck, '%s_%d.jpg' % (basename, deck_count), verbose=verbose)
          deck_count += 1
  \<close>
\<close>

definition export_sheet ::
  "env \<Rightarrow> string \<Rightarrow> bool \<Rightarrow> pil_image option entry list \<Rightarrow> int \<Rightarrow> int io"
where
  "export_sheet env basename verbose deck deck_count =
     and_then
       (print_line (''Deck face n. '' @ str_int deck_count @ '' size: ''
          @ str_int (no_of_cards deck) @ ''.''))
       (\<lambda>_. and_then
          (stitch_deck env deck (basename @ ''_'' @ str_int deck_count @ ''.jpg'') verbose)
          (\<lambda>_. return_io (deck_count + 1)))"

definition export_deck :: "env \<Rightarrow> pil_image option entry list \<Rightarrow> string \<Rightarrow> bool \<Rightarrow> unit io" where
  "export_deck env entries basename verbose =
     and_then (for_io (split_deck_if_necessary entries) (export_sheet env basename verbose) 0)
       (\<lambda>_. return_io ())"

text \<open>
  \<^verbatim>\<open>
      for deck in arguments['DECK']:
          print "Processing deck '%s'..." % deck
          entries = read_deck(deck)
          if verbose:
              pretty_print_deck(entries)
          print 'Fetching images... this may take a while!'
          try:
              entries = fetch_images(entries, randomise_lands, verbose)
          except UnavailableCardImageException as e:
              print '[ERROR] %s' % e
              continue
          print 'Exporting Tabletop Simulator deck faces...'
          export_deck(entries, deck.split('.', 1)[0], verbose)
  \<close>
  \<open>process_deck\<close> is the body of the loop, \<open>main\<close> the loop: an exception that is
  not caught ends the run. In the handler, \<open>'[ERROR] %s' % e\<close> formats the exception with
  \<open>str(e)\<close>, which may raise in its turn; nothing catches that.
\<close>

definition process_deck :: "env \<Rightarrow> bool \<Rightarrow> bool \<Rightarrow> string \<Rightarrow> unit io" where
  "process_deck env verbose randomise_lands deck =
     and_then (print_line (''Processing deck '' @ [CHR 0x27] @ deck @ [CHR 0x27] @ ''...''))
       (\<lambda>_. case read_deck env deck of
           Inl e \<Rightarrow> raise e
         | Inr entries \<Rightarrow>
             and_then (when_verbose verbose (pretty_print_deck entries))
               (\<lambda>_. and_then (print_line ''Fetching images... this may take a while!'')
                  (\<lambda>_ w. case fetch_images env entries randomise_lands verbose w of
                      (Inl (UnavailableCardImageException msg), w') \<Rightarrow>
                        (case str_exception msg of
                           Inl e \<Rightarrow> (Inl e, w')
                         | Inr text \<Rightarrow> print_line (''[ERROR] '' @ text) w')
                    | (Inl e, w') \<Rightarrow> (Inl e, w')
                    | (Inr entries, w') \<Rightarrow>
                        and_then (print_line ''Exporting Tabletop Simulator deck faces...'')
                          (\<lambda>_. export_deck env entries (before_dot deck) verbose) w')))"

definition main :: "env \<Rightarrow> bool \<Rightarrow> bool \<Rightarrow> string list \<Rightarrow> unit io" where
  "main env verbose randomise_lands decks =
     for_io decks (\<lambda>deck u. process_deck env verbose randomise_lands deck) ()"

section \<open>Notions used to state the properties\<close>

text \<open>
  The physical cards of a sheet, in the order the compositor meets them: the payload of
  each entry, once per iteration of \<open>range(0, entry[0])\<close>.
\<close>

definition physical_cards :: "'a entry list \<Rightarrow> 'a list" where
  "physical_cards entries = concat (map (\<lambda>entry. replicate (nat (fst entry)) (snd entry)) entries)"

text \<open>The URL that \<open>choice\<close> takes from a pool that is not empty at the \<open>k\<close>-th draw.\<close>

definition drawn :: "env \<Rightarrow> string list \<Rightarrow> nat \<Rightarrow> string" where
  "drawn env urls k = urls ! (random env k mod length urls)"

text \<open>The top left corner of the \<open>i\<close>-th cell of the grid, counted row by row from 0.\<close>

definition cell_xy :: "nat \<Rightarrow> int \<times> int" where
  "cell_xy i = (int (i mod 10) * 312, int (i div 10) * 445)"

definition placed :: "nat \<Rightarrow> pil_image list \<Rightarrow> (pil_image \<times> int \<times> int) list" where
  "placed k imgs = map (\<lambda>(j, img). (img, cell_xy j)) (enumerate k imgs)"

text \<open>The loop variables of the compositor after \<open>k\<close> cards have been pasted.\<close>

definition aligned :: "stitch_state \<Rightarrow> nat \<Rightarrow> bool" where
  "aligned s k \<longleftrightarrow>
     current_card_count s = int k + 1 \<and> cur_x s = int (k mod 10) * 312
     \<and> cur_y s = int (k div 10) * 445"

text \<open>A statement that saves no file.\<close>

definition keeps_files :: "'a io \<Rightarrow> bool" where
  "keeps_files m \<longleftrightarrow> (\<forall>w. files (snd (m w)) = files w)"

text \<open>
  The lines \<open>process_deck\<close> has printed for a deck when it starts to fetch the images.
\<close>

definition announce :: "bool \<Rightarrow> string \<Rightarrow> string entry list \<Rightarrow> string list" where
  "announce verbose deck entries =
     [''Processing deck '' @ [CHR 0x27] @ deck @ [CHR 0x27] @ ''...'']
     @ (if verbose
        then map (\<lambda>entry. str_int (fst entry) @ '' x '' @ [CHR 0x27] @ snd entry @ [CHR 0x27]) entries
        else [])
     @ [''Fetching images... this may take a while!'']"

section \<open>A small outside world\<close>

text \<open>
  Six deck files (the card of \<open>aether.dec\<close> is \<open>\<AE>ther Vial\<close>, whose first letter
  is the code point 198), a card database that knows one card and three basic lands, and
  three images, for running the definitions on concrete inputs.
\<close>

definition white_card :: pil_image where
  "white_card = \<lparr>im_width = 312, im_height = 445, im_pixel = (\<lambda>x y. (255, 255, 255))\<rparr>"

definition red_card :: pil_image where
  "red_card = \<lparr>im_width = 312, im_height = 445, im_pixel = (\<lambda>x y. (255, 0, 0))\<rparr>"

definition blue_back :: pil_image where
  "blue_back = \<lparr>im_width = 624, im_height = 890, im_pixel = (\<lambda>x y. (0, 0, 255))\<rparr>"

definition demo_env :: env where
  "demo_env =
     \<lparr>readlines = (\<lambda>fname.
        if fname = ''zero.dec'' then Inr [''0 Plains\<newline>'', ''-3 Forest\<newline>'']
        else if fname = ''broken.dec'' then Inr [''4 Island\<newline>'', ''Plains\<newline>'']
        else if fname = ''tab.dec'' then Inr [''4'' @ [CHR 0x09] @ ''Plains\<newline>'']
        else if fname = ''bad.dec'' then Inr [''1 Black Lotus\<newline>'']
        else if fname = ''aether.dec'' then Inr [''1 '' @ [CHR 0xC6] @ ''ther Vial\<newline>'']
        else if fname = ''good.dec'' then Inr [''// lands\<newline>'', ''2 Forest\<newline>'']
        else Inl IOError),
      card_image_url = (\<lambda>name.
        if name = ''Forest'' then Inr (Some ''forest.jpg'') else Inr None),
      land_image_urls = (\<lambda>name.
        if name = ''Plains'' then Inr (Some [''plains1.jpg'', ''plains2.jpg''])
        else if name = ''Swamp'' then Inr (Some [''gone.jpg''])
        else if name = ''Forest'' then Inr (Some [])
        else Inr None),
      open_image = (\<lambda>url.
        if url = ''forest.jpg'' \<or> url = ''plains1.jpg'' then Inr white_card
        else if url = ''plains2.jpg'' then Inr red_card
        else if url = cardback_url then Inr blue_back
        else Inl URLError),
      random = (\<lambda>k. k),
      antialias = (\<lambda>img sz x y.
        im_pixel img (x * im_width img div fst sz) (y * im_height img div snd sz))\<rparr>"

definition fresh_world :: world where
  "fresh_world = \<lparr>stdout = [], draws = 0, files = []\<rparr>"

section \<open>Properties of the deck splitter\<close>

lemma no_of_cards_fold:
  "fold (\<lambda>entry count. count + fst entry) es (c :: int) = c + sum_list (map fst es)"
  by (induction es arbitrary: c) simp_all

lemma no_of_cards_sum: "no_of_cards es = sum_list (map fst es)"
  by (simp add: no_of_cards_def no_of_cards_fold)

lemma no_of_cards_snoc: "no_of_cards (es @ [e]) = no_of_cards es + fst e"
  by (simp add: no_of_cards_sum)

lemma split_step_concat:
  "split_step e (ds, c) = (ds', c') \<Longrightarrow> concat ds' @ c' = concat ds @ c @ [e]"
  by (auto simp: split_step_def split: if_splits)

lemma fold_split_step_concat:
  "fold split_step es (ds, c) = (ds', c') \<Longrightarrow> concat ds' @ c' = concat ds @ c @ es"
proof (induction es arbitrary: ds c)
  case Nil
  then show ?case by simp
next
  case (Cons e es)
  obtain ds1 c1 where step: "split_step e (ds, c) = (ds1, c1)"
    by (cases "split_step e (ds, c)")
  with Cons.prems have "fold split_step es (ds1, c1) = (ds', c')"
    by simp
  from Cons.IH [OF this] split_step_concat [OF step] show ?case
    by simp
qed

lemma split_step_ok:
  assumes "split_step e (ds, c) = (ds', c')"
    and "\<forall>d \<in> set ds. sheet_ok d" and "sheet_ok c"
  shows "(\<forall>d \<in> set ds'. sheet_ok d) \<and> sheet_ok c'"
proof (cases "no_of_cards c + fst e > 69")
  case True
  with assms(1) have "ds' = ds @ [c]" and "c' = [e]"
    by (simp_all add: split_step_def)
  moreover have "sheet_ok [e]"
    by (cases "fst e \<le> 69") (simp_all add: sheet_ok_def no_of_cards_sum)
  ultimately show ?thesis using assms(2,3) by simp
next
  case False
  with assms(1) have "ds' = ds" and "c' = c @ [e]"
    by (simp_all add: split_step_def)
  moreover from False have "sheet_ok (c @ [e])"
    by (simp add: sheet_ok_def no_of_cards_snoc)
  ultimately show ?thesis using assms(2) by simp
qed

lemma fold_split_step_ok:
  "fold split_step es (ds, c) = (ds', c') \<Longrightarrow> \<forall>d \<in> set ds. sheet_ok d \<Longrightarrow> sheet_ok c
   \<Longrightarrow> (\<forall>d \<in> set ds'. sheet_ok d) \<and> sheet_ok c'"
proof (induction es arbitrary: ds c)
  case Nil
  then show ?case by simp
next
  case (Cons e es)
  obtain ds1 c1 where step: "split_step e (ds, c) = (ds1, c1)"
    by (cases "split_step e (ds, c)")
  with Cons.prems(1) have rest: "fold split_step es (ds1, c1) = (ds', c')"
    by simp
  from split_step_ok [OF step Cons.prems(2,3)]
  have "\<forall>d \<in> set ds1. sheet_ok d" and "sheet_ok c1"
    by simp_all
  from Cons.IH [OF rest this] show ?case .
qed

lemma split_sheets_ok: "\<forall>sheet \<in> set (split_deck_if_necessary entries). sheet_ok sheet"
proof -
  obtain ds c where f: "fold split_step entries ([], []) = (ds, c)"
    by (cases "fold split_step entries ([], [] :: 'a entry list)")
  have "sheet_ok ([] :: 'a entry list)"
    by (simp add: sheet_ok_def no_of_cards_def)
  with fold_split_step_ok [OF f] have "(\<forall>d \<in> set ds. sheet_ok d) \<and> sheet_ok c"
    by simp
  with f show ?thesis
    by (simp add: split_deck_if_necessary_def)
qed

text \<open>
  C1. When every entry has a positive quantity, every sheet the splitter emits has a
  total quantity of at most 69, except possibly a sheet that is one single entry whose
  own quantity is greater than 69.
\<close>

theorem split_deck_capacity:
  assumes "\<forall>entry \<in> set entries. 0 < fst entry"
    and "sheet \<in> set (split_deck_if_necessary entries)"
  shows "no_of_cards sheet \<le> 69 \<or> (\<exists>entry. sheet = [entry] \<and> 69 < fst entry)"
proof -
  from split_sheets_ok assms(2) have "sheet_ok sheet"
    by blast
  then show ?thesis
    by (cases sheet) (auto simp: sheet_ok_def)
qed

theorem split_deck_capacity_witness:
  "split_deck_if_necessary [(30, ''Forest''), (40, ''Island''), (80, ''Swamp''), (5, ''Plains'')]
     = [[(30, ''Forest'')], [(40, ''Island'')], [(80, ''Swamp'')], [(5, ''Plains'')]]
   \<and> no_of_cards [(30, ''Forest'')] \<le> 69
   \<and> (\<exists>entry. [(80 :: int, ''Swamp'')] = [entry] \<and> 69 < fst entry)"
proof -
  let ?es = "[(30 :: int, ''Forest''), (40, ''Island''), (80, ''Swamp''), (5, ''Plains'')]"
  have split: "split_deck_if_necessary ?es
      = [[(30, ''Forest'')], [(40, ''Island'')], [(80, ''Swamp'')], [(5, ''Plains'')]]"
    by (simp add: split_deck_if_necessary_def split_step_def no_of_cards_def)
  have pos: "\<forall>entry \<in> set ?es. 0 < fst entry"
    by simp
  have "[(80 :: int, ''Swamp'')] \<in> set (split_deck_if_necessary ?es)"
    by (simp add: split)
  from split_deck_capacity [OF pos this]
  have "\<exists>entry. [(80 :: int, ''Swamp'')] = [entry] \<and> 69 < fst entry"
    by (simp add: no_of_cards_def)
  with split show ?thesis
    by (simp add: no_of_cards_def)
qed

text \<open>
  C2. Concatenating the sheets produced by the splitter, in the order they are emitted,
  gives back the original sequence of entries.
\<close>

theorem split_deck_concat: "concat (split_deck_if_necessary entries) = entries"
proof -
  obtain ds c where f: "fold split_step entries ([], []) = (ds, c)"
    by (cases "fold split_step entries ([], [] :: 'a entry list)")
  from fold_split_step_concat [OF f] f show ?thesis
    by (simp add: split_deck_if_necessary_def)
qed

lemma fold_split_step_prefix:
  "fold split_step es (ds, c) = (ds', c') \<Longrightarrow> \<exists>t. ds' = ds @ t"
proof (induction es arbitrary: ds c)
  case Nil
  then show ?case by simp
next
  case (Cons e es)
  obtain ds1 c1 where step: "split_step e (ds, c) = (ds1, c1)"
    by (cases "split_step e (ds, c)")
  then have "\<exists>t. ds1 = ds @ t"
    by (auto simp: split_step_def split: if_splits)
  moreover from Cons.prems step have "fold split_step es (ds1, c1) = (ds', c')"
    by simp
  from Cons.IH [OF this] have "\<exists>t. ds' = ds1 @ t" .
  ultimately show ?case by auto
qed

lemma split_step_oversized:
  "69 < fst e \<Longrightarrow> split_step e (decks, []) = (decks @ [[]], [e])"
  by (simp add: split_step_def no_of_cards_def)

text \<open>
  C9. When the first entry is larger than 69 and every quantity is positive, the first
  sheet the splitter emits is empty and the second is that entry alone; in general,
  closing the current sheet appends it even when it is empty.
\<close>

theorem split_deck_empty_first_sheet:
  assumes "69 < fst e" and "\<forall>entry \<in> set rest. 0 < fst entry"
  shows "(\<exists>ds. split_deck_if_necessary (e # rest) = [] # [e] # ds)
    \<and> split_step e (decks, []) = (decks @ [[]], [e])"
proof
  have first: "fold split_step (e # rest) ([], []) = fold split_step rest ([[]], [e])"
    using assms(1) by (simp add: split_step_oversized)
  show "\<exists>ds. split_deck_if_necessary (e # rest) = [] # [e] # ds"
  proof (cases rest)
    case Nil
    with first show ?thesis
      by (simp add: split_deck_if_necessary_def)
  next
    case (Cons e2 r)
    with assms have "69 < no_of_cards [e] + fst e2"
      by (simp add: no_of_cards_def)
    then have step: "split_step e2 ([[]], [e]) = ([[], [e]], [e2])"
      by (simp add: split_step_def)
    obtain ds' c' where f: "fold split_step r ([[], [e]], [e2]) = (ds', c')"
      by (cases "fold split_step r ([[], [e]], [e2])")
    from fold_split_step_prefix [OF f] obtain t where "ds' = [[], [e]] @ t" ..
    with first Cons step f show ?thesis
      by (simp add: split_deck_if_necessary_def)
  qed
  show "split_step e (decks, []) = (decks @ [[]], [e])"
    using assms(1) by (rule split_step_oversized)
qed

theorem split_deck_empty_first_sheet_witness:
  "split_deck_if_necessary [(70, ''Forest''), (4, ''Island'')] = [[], [(70, ''Forest'')], [(4, ''Island'')]]"
  using split_deck_empty_first_sheet [of "(70, ''Forest'')" "[(4, ''Island'')]" "[]"]
  by (simp add: split_deck_if_necessary_def split_step_def no_of_cards_def)

section \<open>Properties of the sheet compositor\<close>

lemma count_mod: "(int k + 1) mod 10 = 0 \<longleftrightarrow> Suc k mod 10 = 0"
proof -
  have "int (Suc k mod 10) = int (Suc k) mod 10"
    by (simp only: of_nat_mod of_nat_numeral)
  then have "(int k + 1) mod 10 = int (Suc k mod 10)"
    by (simp add: add.commute)
  then show ?thesis by simp
qed

lemma next_cell_wrap:
  "Suc k mod 10 = 0 \<Longrightarrow> Suc k div 10 = Suc (k div 10)"
  by (simp add: div_Suc)

lemma next_cell_step:
  "Suc k mod 10 \<noteq> 0 \<Longrightarrow> Suc k mod 10 = Suc (k mod 10) \<and> Suc k div 10 = k div 10"
  by (simp add: div_Suc mod_Suc split: if_splits)

lemma stitch_card_aligned:
  assumes "aligned s k"
  shows "\<exists>s'. stitch_card verbose (Some img) s = Inr s' \<and> aligned s' (Suc k)
    \<and> pastes (deck_face s') = pastes (deck_face s) @ [(img, cell_xy k)]
    \<and> canvas_width (deck_face s') = canvas_width (deck_face s)
    \<and> canvas_height (deck_face s') = canvas_height (deck_face s)
    \<and> verbose_count s' = (if verbose then verbose_count s + 1 else verbose_count s)"
proof (cases "Suc k mod 10 = 0")
  case True
  then have "(int k + 1) mod 10 = 0"
    by (simp only: count_mod)
  with assms True next_cell_wrap [OF True] show ?thesis
    by (simp add: stitch_card_def paste_def aligned_def Let_def CARDS_PER_ROW_def CARD_WIDTH_def
      CARD_HEIGHT_def cell_xy_def algebra_simps)
next
  case False
  then have "(int k + 1) mod 10 \<noteq> 0"
    by (simp only: count_mod not_False_eq_True)
  with assms next_cell_step [OF False] show ?thesis
    by (simp add: stitch_card_def paste_def aligned_def Let_def CARDS_PER_ROW_def CARD_WIDTH_def
      CARD_HEIGHT_def cell_xy_def algebra_simps)
qed

lemma placed_Cons: "placed k (img # imgs) = (img, cell_xy k) # placed (Suc k) imgs"
  by (simp add: placed_def)

lemma placed_append: "placed k (xs @ ys) = placed k xs @ placed (k + length xs) ys"
  by (simp add: placed_def enumerate_append_eq)

lemma stitch_copies_aligned:
  "aligned s k \<Longrightarrow>
   \<exists>s'. for_each xs (\<lambda>i. stitch_card verbose (Some img)) s = Inr s'
     \<and> aligned s' (k + length xs)
     \<and> pastes (deck_face s') = pastes (deck_face s) @ placed k (replicate (length xs) img)
     \<and> canvas_width (deck_face s') = canvas_width (deck_face s)
     \<and> canvas_height (deck_face s') = canvas_height (deck_face s)"
proof (induction xs arbitrary: s k)
  case Nil
  then show ?case by (simp add: placed_def)
next
  case (Cons x xs)
  from stitch_card_aligned [OF Cons.prems, of verbose img]
  obtain s1 where s1: "stitch_card verbose (Some img) s = Inr s1" "aligned s1 (Suc k)"
    "pastes (deck_face s1) = pastes (deck_face s) @ [(img, cell_xy k)]"
    "canvas_width (deck_face s1) = canvas_width (deck_face s)"
    "canvas_height (deck_face s1) = canvas_height (deck_face s)"
    by blast
  from Cons.IH [OF s1(2)] obtain s' where
    "for_each xs (\<lambda>i. stitch_card verbose (Some img)) s1 = Inr s'"
    "aligned s' (Suc k + length xs)"
    "pastes (deck_face s') = pastes (deck_face s1) @ placed (Suc k) (replicate (length xs) img)"
    "canvas_width (deck_face s') = canvas_width (deck_face s1)"
    "canvas_height (deck_face s') = canvas_height (deck_face s1)"
    by blast
  with s1 show ?case
    by (simp add: placed_Cons)
qed

lemma stitch_cards_aligned:
  "aligned s k \<Longrightarrow>
   \<exists>s'. stitch_cards verbose (map (\<lambda>entry. (fst entry, Some (snd entry))) sheet) s = Inr s'
     \<and> aligned s' (k + length (physical_cards sheet))
     \<and> pastes (deck_face s') = pastes (deck_face s) @ placed k (physical_cards sheet)
     \<and> canvas_width (deck_face s') = canvas_width (deck_face s)
     \<and> canvas_height (deck_face s') = canvas_height (deck_face s)"
proof (induction sheet arbitrary: s k)
  case Nil
  then show ?case by (simp add: stitch_cards_def physical_cards_def placed_def)
next
  case (Cons entry sheet)
  from stitch_copies_aligned [OF Cons.prems, of "range0 (fst entry)" verbose "snd entry"]
  obtain s1 where s1:
    "for_each (range0 (fst entry)) (\<lambda>i. stitch_card verbose (Some (snd entry))) s = Inr s1"
    "aligned s1 (k + nat (fst entry))"
    "pastes (deck_face s1) = pastes (deck_face s) @ placed k (replicate (nat (fst entry)) (snd entry))"
    "canvas_width (deck_face s1) = canvas_width (deck_face s)"
    "canvas_height (deck_face s1) = canvas_height (deck_face s)"
    by (auto simp: range0_def)
  from Cons.IH [OF s1(2)] obtain s' where
    "stitch_cards verbose (map (\<lambda>entry. (fst entry, Some (snd entry))) sheet) s1 = Inr s'"
    "aligned s' (k + nat (fst entry) + length (physical_cards sheet))"
    "pastes (deck_face s') = pastes (deck_face s1) @ placed (k + nat (fst entry)) (physical_cards sheet)"
    "canvas_width (deck_face s') = canvas_width (deck_face s1)"
    "canvas_height (deck_face s') = canvas_height (deck_face s1)"
    by blast
  with s1 show ?case
    by (simp add: stitch_cards_def physical_cards_def placed_append add.assoc)
qed

lemma physical_cards_map:
  "physical_cards (map (\<lambda>entry. (fst entry, f (snd entry))) sheet) = map f (physical_cards sheet)"
  by (induction sheet) (simp_all add: physical_cards_def)

lemma with_images:
  assumes "\<forall>entry \<in> set entries. snd entry \<noteq> None"
  shows "entries = map (\<lambda>entry. (fst entry, Some (snd entry)))
                     (map (\<lambda>entry. (fst entry, the (snd entry))) entries)"
  using assms by (induction entries) auto

lemma length_physical_cards:
  "\<forall>entry \<in> set entries. 0 \<le> fst entry \<Longrightarrow>
   int (length (physical_cards entries)) = no_of_cards entries"
  by (induction entries) (simp_all add: physical_cards_def no_of_cards_sum)

lemma aligned_init: "aligned stitch_init 0"
  by (simp add: aligned_def stitch_init_def)

lemma placed_nth:
  "i < length imgs \<Longrightarrow> placed 0 imgs ! i = (imgs ! i, cell_xy i)"
  by (simp add: placed_def nth_enumerate_eq)

lemma stitch_cards_init:
  "\<exists>s. stitch_cards verbose (map (\<lambda>entry. (fst entry, Some (snd entry))) sheet) stitch_init = Inr s
     \<and> pastes (deck_face s) = placed 0 (physical_cards sheet)
     \<and> canvas_width (deck_face s) = 3120 \<and> canvas_height (deck_face s) = 3115"
  using stitch_cards_aligned [OF aligned_init, of verbose sheet]
  by (auto simp: stitch_init_def new_image_def CARDS_PER_ROW_def CARDS_PER_COLUMN_def
      CARD_WIDTH_def CARD_HEIGHT_def)

text \<open>
  C4. For a sheet whose total quantity is at most 69, the compositor pastes the physical
  cards row by row: the \<open>i\<close>-th card, counting from 0 through the entries in order, each
  repeated as often as its quantity says, goes to \<open>x = (i mod 10) * 312\<close> and
  \<open>y = (i div 10) * 445\<close>. When no quantity is negative, there are as many cards as
  the total quantity, and all of them are in the 7 rows of the grid.
\<close>

theorem stitch_cards_row_major:
  assumes "no_of_cards entries \<le> 69"
    and "\<forall>entry \<in> set entries. snd entry \<noteq> None"
  shows "\<exists>s. stitch_cards verbose entries stitch_init = Inr s
     \<and> length (pastes (deck_face s)) = length (physical_cards entries)
     \<and> (\<forall>i < length (physical_cards entries).
           physical_cards entries ! i = Some (fst (pastes (deck_face s) ! i))
           \<and> snd (pastes (deck_face s) ! i) = (int (i mod 10) * 312, int (i div 10) * 445))
     \<and> ((\<forall>entry \<in> set entries. 0 \<le> fst entry) \<longrightarrow>
           int (length (physical_cards entries)) = no_of_cards entries
           \<and> (\<forall>i < length (physical_cards entries). i div 10 < 7))"
proof -
  define sheet where "sheet = map (\<lambda>entry. (fst entry, the (snd entry))) entries"
  have entries: "entries = map (\<lambda>entry. (fst entry, Some (snd entry))) sheet"
    unfolding sheet_def using assms(2) by (rule with_images)
  have cards: "physical_cards entries = map Some (physical_cards sheet)"
    by (subst entries) (rule physical_cards_map)
  from stitch_cards_init [of verbose sheet] obtain s where
    s: "stitch_cards verbose entries stitch_init = Inr s"
      "pastes (deck_face s) = placed 0 (physical_cards sheet)"
    unfolding entries by blast
  have len: "length (pastes (deck_face s)) = length (physical_cards entries)"
    by (simp add: s(2) cards placed_def)
  have nth: "physical_cards entries ! i = Some (fst (pastes (deck_face s) ! i))
      \<and> snd (pastes (deck_face s) ! i) = (int (i mod 10) * 312, int (i div 10) * 445)"
    if "i < length (physical_cards entries)" for i
    using that by (simp add: s(2) cards placed_nth cell_xy_def)
  have grid: "int (length (physical_cards entries)) = no_of_cards entries
      \<and> (\<forall>i < length (physical_cards entries). i div 10 < 7)"
    if "\<forall>entry \<in> set entries. 0 \<le> fst entry"
  proof -
    from length_physical_cards [OF that] assms(1)
    have "int (length (physical_cards entries)) = no_of_cards entries"
      and "length (physical_cards entries) \<le> 69"
      by simp_all
    then show ?thesis by auto
  qed
  from s(1) len nth grid show ?thesis
    by blast
qed

theorem stitch_cards_row_major_witness:
  "\<exists>s. stitch_cards False [(11, Some white_card), (1, Some red_card)] stitch_init = Inr s
     \<and> pastes (deck_face s) ! 11 = (red_card, 312, 445)"
proof -
  let ?entries = "[(11 :: int, Some white_card), (1, Some red_card)]"
  have total: "no_of_cards ?entries \<le> 69"
    by (simp add: no_of_cards_def)
  have images: "\<forall>entry \<in> set ?entries. snd entry \<noteq> None"
    by simp
  have cards: "physical_cards ?entries = replicate 11 (Some white_card) @ [Some red_card]"
    by (simp add: physical_cards_def)
  from stitch_cards_row_major [OF total images, of False] obtain s where
    s: "stitch_cards False ?entries stitch_init = Inr s"
    and nth: "\<forall>i < length (physical_cards ?entries).
           physical_cards ?entries ! i = Some (fst (pastes (deck_face s) ! i))
           \<and> snd (pastes (deck_face s) ! i) = (int (i mod 10) * 312, int (i div 10) * 445)"
    by blast
  from nth [rule_format, of 11] have "pastes (deck_face s) ! 11 = (red_card, 312, 445)"
    by (simp add: cards nth_append prod_eq_iff)
  with s show ?thesis by blast
qed

lemma getpixel_last_paste:
  assumes "0 \<le> px" "px < im_width img" "0 \<le> py" "py < im_height img"
    and "0 \<le> x" "x + px < canvas_width face" "0 \<le> y" "y + py < canvas_height face"
    and "pastes face = ps @ [(img, x, y)]"
  shows "getpixel face (x + px, y + py) = Inr (im_pixel img px py)"
  using assms by (simp add: getpixel_def covers_def)

lemma stitch_deck_face:
  assumes "stitch_cards verbose entries stitch_init = Inr s"
    and "open_image env cardback_url = Inr hidden"
  shows "\<exists>w'. stitch_deck env entries output_fpath verbose w = (Inr (), w')
      \<and> files w' = files w
           @ [(output_fpath,
               (deck_face s)\<lparr>pastes := pastes (deck_face s)
                  @ [(resize env hidden (312, 445), 2808, 2670)]\<rparr>)]"
  using assms
  by (simp add: stitch_deck_def and_then_def when_verbose_def print_line_def return_io_def
      paste_def save_def CARDS_PER_ROW_def CARDS_PER_COLUMN_def CARD_WIDTH_def CARD_HEIGHT_def)

text \<open>
  The two ways the compositor raises: an entry without image (\<open>paste\<close> of \<open>None\<close>),
  and a failed download of the hidden card. Nothing is saved then.
\<close>

lemma stitch_card_missing_image: "stitch_card verbose None s = Inl ValueError"
  by (simp add: stitch_card_def paste_def Let_def)

lemma stitch_deck_missing_image:
  "stitch_cards verbose entries stitch_init = Inl e \<Longrightarrow>
   stitch_deck env entries output_fpath verbose w = (Inl e, w)"
  by (simp add: stitch_deck_def raise_def)

lemma stitch_deck_cardback_error:
  assumes "stitch_cards verbose entries stitch_init = Inr s"
    and "open_image env cardback_url = Inl e"
  shows "fst (stitch_deck env entries output_fpath verbose w) = Inl e
    \<and> files (snd (stitch_deck env entries output_fpath verbose w)) = files w"
  using assms
  by (simp add: stitch_deck_def and_then_def when_verbose_def print_line_def return_io_def
      raise_def)

text \<open>
  C3. Whatever the sheet holds, the empty sheet included, the sheet that is saved has the
  hidden card, resized to one cell (312 by 445), as the last image pasted, at
  \<open>(9 * 312, 6 * 445)\<close>, and every pixel of the last cell shows it. The images of
  the sheet are present and the download of the hidden card succeeds: otherwise the
  compositor raises and saves nothing.
\<close>

theorem stitch_deck_hidden_card:
  assumes "\<forall>entry \<in> set entries. snd entry \<noteq> None"
    and "open_image env cardback_url = Inr hidden"
  shows "\<exists>face w'. stitch_deck env entries output_fpath verbose w = (Inr (), w')
      \<and> files w' = files w @ [(output_fpath, face)]
      \<and> last (pastes face) = (resize env hidden (312, 445), 9 * 312, 6 * 445)
      \<and> im_width (resize env hidden (312, 445)) = 312
      \<and> im_height (resize env hidden (312, 445)) = 445
      \<and> (\<forall>px py. 0 \<le> px \<and> px < 312 \<and> 0 \<le> py \<and> py < 445 \<longrightarrow>
            getpixel face (9 * 312 + px, 6 * 445 + py)
              = Inr (im_pixel (resize env hidden (312, 445)) px py))"
proof -
  define sheet where "sheet = map (\<lambda>entry. (fst entry, the (snd entry))) entries"
  have entries: "entries = map (\<lambda>entry. (fst entry, Some (snd entry))) sheet"
    unfolding sheet_def using assms(1) by (rule with_images)
  from stitch_cards_init [of verbose sheet] obtain s where
    s: "stitch_cards verbose entries stitch_init = Inr s"
      "canvas_width (deck_face s) = 3120" "canvas_height (deck_face s) = 3115"
    unfolding entries by blast
  define placeholder where "placeholder = resize env hidden (312, 445)"
  define face where "face = (deck_face s)\<lparr>pastes := pastes (deck_face s) @ [(placeholder, 2808, 2670)]\<rparr>"
  from stitch_deck_face [OF s(1) assms(2), of output_fpath w] obtain w' where
    w': "stitch_deck env entries output_fpath verbose w = (Inr (), w')"
      "files w' = files w @ [(output_fpath, face)]"
    unfolding face_def placeholder_def by blast
  have size: "im_width placeholder = 312" "im_height placeholder = 445"
    by (simp_all add: placeholder_def resize_def)
  have pixel: "getpixel face (9 * 312 + px, 6 * 445 + py) = Inr (im_pixel placeholder px py)"
    if "0 \<le> px \<and> px < 312 \<and> 0 \<le> py \<and> py < 445" for px py
  proof -
    have "getpixel face (2808 + px, 2670 + py) = Inr (im_pixel placeholder px py)"
      using that s(2,3) size
      by (intro getpixel_last_paste [where ps = "pastes (deck_face s)"]) (simp_all add: face_def)
    then show ?thesis by simp
  qed
  have "last (pastes face) = (placeholder, 9 * 312, 6 * 445)"
    by (simp add: face_def)
  with w' size pixel show ?thesis
    unfolding placeholder_def by blast
qed

theorem stitch_deck_hidden_card_witness:
  "(\<exists>face w'. stitch_deck demo_env [(70, Some white_card)] ''deck_0.jpg'' False fresh_world
        = (Inr (), w')
      \<and> files w' = [(''deck_0.jpg'', face)]
      \<and> getpixel face (9 * 312 + 5, 6 * 445 + 7) = Inr (0, 0, 255))
   \<and> (\<exists>face w'. stitch_deck demo_env [] ''deck_1.jpg'' False fresh_world = (Inr (), w')
      \<and> files w' = [(''deck_1.jpg'', face)]
      \<and> getpixel face (9 * 312 + 5, 6 * 445 + 7) = Inr (0, 0, 255))"
proof -
  have hidden: "open_image demo_env cardback_url = Inr blue_back"
    by (simp add: demo_env_def cardback_url_def)
  have colour: "im_pixel (resize demo_env blue_back (312, 445)) 5 7 = (0, 0, 255)"
    by (simp add: resize_def demo_env_def blue_back_def)
  have run: "\<exists>face w'. stitch_deck demo_env entries fpath False fresh_world = (Inr (), w')
      \<and> files w' = [(fpath, face)]
      \<and> getpixel face (9 * 312 + 5, 6 * 445 + 7) = Inr (0, 0, 255)"
    if images: "\<forall>entry \<in> set entries. snd entry \<noteq> None" for entries fpath
  proof -
    from stitch_deck_hidden_card [OF images hidden, of fpath False fresh_world]
    obtain face w' where
      saved: "stitch_deck demo_env entries fpath False fresh_world = (Inr (), w')"
        "files w' = files fresh_world @ [(fpath, face)]"
      and pixel: "\<forall>px py. 0 \<le> px \<and> px < 312 \<and> 0 \<le> py \<and> py < 445 \<longrightarrow>
            getpixel face (9 * 312 + px, 6 * 445 + py)
              = Inr (im_pixel (resize demo_env blue_back (312, 445)) px py)"
      by blast
    from pixel [rule_format, of 5 7] colour
    have "getpixel face (9 * 312 + 5, 6 * 445 + 7) = Inr (0, 0, 255)"
      by simp
    with saved show ?thesis
      by (simp add: fresh_world_def)
  qed
  have "\<forall>entry \<in> set [(70 :: int, Some white_card)]. snd entry \<noteq> None"
    by simp
  moreover have "\<forall>entry \<in> set ([] :: pil_image option entry list). snd entry \<noteq> None"
    by simp
  ultimately show ?thesis
    using run by blast
qed

section \<open>Properties of the deck parser\<close>

lemma read_lines_ok:
  "list_all (\<lambda>l. py_int (split_space1 l ! 0) \<noteq> None \<and> 2 \<le> length (split_space1 l)) ls \<Longrightarrow>
   for_each ls read_line acc
     = Inr (acc @ map (\<lambda>l. (the (py_int (split_space1 l ! 0)), split_space1 l ! 1)) ls)"
  by (induction ls arbitrary: acc) (auto simp: read_line_def Let_def)

lemma read_lines_fail:
  "\<not> list_all (\<lambda>l. py_int (split_space1 l ! 0) \<noteq> None \<and> 2 \<le> length (split_space1 l)) ls \<Longrightarrow>
   for_each ls read_line acc = Inl ValueError \<or> for_each ls read_line acc = Inl IndexError"
proof (induction ls arbitrary: acc)
  case Nil
  then show ?case by simp
next
  case (Cons l ls)
  show ?case
  proof (cases "py_int (split_space1 l ! 0)")
    case None
    then show ?thesis by (simp add: read_line_def)
  next
    case (Some q)
    show ?thesis
    proof (cases "length (split_space1 l) < 2")
      case True
      with Some show ?thesis by (simp add: read_line_def)
    next
      case False
      with Some Cons.prems have "\<not> list_all (\<lambda>l. py_int (split_space1 l ! 0) \<noteq> None
          \<and> 2 \<le> length (split_space1 l)) ls"
        by simp
      from Cons.IH [OF this, of "acc @ [(q, split_space1 l ! 1)]"] Some False show ?thesis
        by (simp add: read_line_def)
    qed
  qed
qed

text \<open>
  C5, as the code has it. The parser raises (\<open>ValueError\<close> or \<open>IndexError\<close>) when
  some line that is neither a comment, a sideboard line nor blank has a first token,
  up to the first space, that \<open>int\<close> does not accept, or has no space; otherwise it
  returns one entry per such line, the value of the token and what follows the space.
  The value is not required to be positive.
\<close>

theorem read_deck_entries:
  assumes "readlines env fname = Inr ls"
  shows "(list_all (\<lambda>l. py_int (split_space1 l ! 0) \<noteq> None \<and> 2 \<le> length (split_space1 l))
            (data_lines ls) \<longrightarrow>
          read_deck env fname
            = Inr (map (\<lambda>l. (the (py_int (split_space1 l ! 0)), split_space1 l ! 1)) (data_lines ls)))
     \<and> (\<not> list_all (\<lambda>l. py_int (split_space1 l ! 0) \<noteq> None \<and> 2 \<le> length (split_space1 l))
            (data_lines ls) \<longrightarrow>
          read_deck env fname = Inl ValueError \<or> read_deck env fname = Inl IndexError)"
  using assms read_lines_ok [of "data_lines ls" "[]"] read_lines_fail [of "data_lines ls" "[]"]
  by (simp add: read_deck_def)

theorem read_deck_entries_witness:
  "read_deck demo_env ''good.dec'' = Inr [(2, ''Forest'')]
   \<and> read_deck demo_env ''broken.dec'' = Inl ValueError"
proof -
  have good: "readlines demo_env ''good.dec''
      = Inr [''// lands\<newline>'', ''2 Forest\<newline>'']"
    by (simp add: demo_env_def)
  have broken: "readlines demo_env ''broken.dec''
      = Inr [''4 Island\<newline>'', ''Plains\<newline>'']"
    by (simp add: demo_env_def)
  have good_lines: "data_lines [''// lands\<newline>'', ''2 Forest\<newline>''] = [''2 Forest'']"
    by (simp add: data_lines_def startswith_def strip_def isspace_def)
  have broken_lines: "data_lines [''4 Island\<newline>'', ''Plains\<newline>'']
      = [''4 Island'', ''Plains'']"
    by (simp add: data_lines_def startswith_def strip_def isspace_def)
  have tokens: "split_space1 ''2 Forest'' = [''2'', ''Forest'']"
    by (simp add: split_space1_def)
  have quantity: "py_int ''2'' = Some 2"
    by (simp add: py_int_def strip_def isspace_def isdigit_def digits_value_def Let_def)
  have "list_all (\<lambda>l. py_int (split_space1 l ! 0) \<noteq> None \<and> 2 \<le> length (split_space1 l))
      [''2 Forest'']"
    by (simp add: tokens quantity)
  with read_deck_entries [OF good]
  have "read_deck demo_env ''good.dec''
      = Inr (map (\<lambda>l. (the (py_int (split_space1 l ! 0)), split_space1 l ! 1)) [''2 Forest''])"
    unfolding good_lines by blast
  then have "read_deck demo_env ''good.dec'' = Inr [(2, ''Forest'')]"
    by (simp add: tokens quantity)
  moreover have "read_deck demo_env ''broken.dec'' = Inl ValueError"
    by (simp add: read_deck_def broken broken_lines read_line_def split_space1_def py_int_def
        strip_def isspace_def isdigit_def digits_value_def Let_def)
  ultimately show ?thesis ..
qed

text \<open>
  The deck file \<open>zero.dec\<close> has the lines \<open>0 Plains\<close> and \<open>-3 Forest\<close>: the
  parser does not fail on them, and returns the quantities 0 and -3. The deck file
  \<open>tab.dec\<close> has the line \<open>4 Plains\<close> with a tab in the place of the space: the
  first token is cut at a space only, so the whole line goes to \<open>int\<close> and the
  parser fails although the line starts with a positive integer and has a second token.
\<close>

theorem read_deck_accepts_nonpositive:
  "read_deck demo_env ''zero.dec'' = Inr [(0, ''Plains''), (- 3, ''Forest'')]
   \<and> read_deck demo_env ''tab.dec'' = Inl ValueError"
  by (simp add: read_deck_def demo_env_def data_lines_def startswith_def strip_def isspace_def
      read_line_def split_space1_def py_int_def isdigit_def digits_value_def Let_def)

section \<open>Properties of the image resolution\<close>

lemma read_deck_good: "read_deck demo_env ''good.dec'' = Inr [(2, ''Forest'')]"
  by (simp add: read_deck_def demo_env_def data_lines_def startswith_def strip_def isspace_def
      read_line_def split_space1_def py_int_def isdigit_def digits_value_def Let_def)

lemma print_lines:
  "for_io xs (\<lambda>x u. print_line (f x)) () w = (Inr (), w\<lparr>stdout := stdout w @ map f xs\<rparr>)"
  by (induction xs arbitrary: w) (simp_all add: print_line_def)

lemma choice_drawn:
  "urls \<noteq> [] \<Longrightarrow>
   choice env (Some urls) w = (Inr (drawn env urls (draws w)), w\<lparr>draws := Suc (draws w)\<rparr>)"
  by (cases urls) (simp_all add: choice_def drawn_def)

lemma drawn_in_pool: "urls \<noteq> [] \<Longrightarrow> drawn env urls k \<in> set urls"
  by (simp add: drawn_def)

lemma fetch_land_copy_drawn:
  assumes "urls \<noteq> []"
  shows "\<exists>w'. fetch_land_copy env verbose entry (Some urls) i processed w
        = (Inr (processed @ [(1, fetch_image env (Some (drawn env urls (draws w))))]), w')
      \<and> draws w' = Suc (draws w) \<and> files w' = files w"
  using choice_drawn [OF assms, of env w]
  by (simp add: fetch_land_copy_def and_then_def when_verbose_def print_line_def return_io_def)

lemma fetch_land_copies:
  assumes "urls \<noteq> []"
  shows "\<exists>w'. for_io xs (fetch_land_copy env verbose entry (Some urls)) processed w
        = (Inr (processed @ map (\<lambda>k. (1, fetch_image env (Some (drawn env urls k))))
                              [draws w..<draws w + length xs]), w')
      \<and> draws w' = draws w + length xs \<and> files w' = files w"
proof (induction xs arbitrary: processed w)
  case Nil
  show ?case by simp
next
  case (Cons i xs)
  from fetch_land_copy_drawn [OF assms, of env verbose entry i processed w]
  obtain w1 where w1: "fetch_land_copy env verbose entry (Some urls) i processed w
        = (Inr (processed @ [(1, fetch_image env (Some (drawn env urls (draws w))))]), w1)"
      "draws w1 = Suc (draws w)" "files w1 = files w"
    by blast
  from Cons.IH [of "processed @ [(1, fetch_image env (Some (drawn env urls (draws w))))]" w1]
  obtain w' where "for_io xs (fetch_land_copy env verbose entry (Some urls))
        (processed @ [(1, fetch_image env (Some (drawn env urls (draws w))))]) w1
        = (Inr ((processed @ [(1, fetch_image env (Some (drawn env urls (draws w))))])
                @ map (\<lambda>k. (1, fetch_image env (Some (drawn env urls k))))
                    [draws w1..<draws w1 + length xs]), w')"
      "draws w' = draws w1 + length xs" "files w' = files w1"
    by blast
  moreover have "[draws w..<draws w + length (i # xs)]
      = draws w # [draws w1..<draws w1 + length xs]"
    by (subst upt_rec) (simp add: w1(2))
  ultimately show ?case
    using w1 by (simp del: upt_Suc)
qed

lemma fetch_basic_land_image_urls_found:
  assumes "land_image_urls env card_name = Inr (Some urls)"
  shows "\<exists>w'. fetch_basic_land_image_urls env card_name verbose w = (Inr (Some urls), w')
      \<and> draws w' = draws w \<and> files w' = files w"
  using assms
  by (simp add: fetch_basic_land_image_urls_def and_then_def when_verbose_def print_line_def
      return_io_def print_lines)

lemma fetch_entry_land:
  assumes "is_basic_land (snd entry)"
    and "land_image_urls env (snd entry) = Inr (Some urls)"
    and "urls \<noteq> []"
  shows "\<exists>w'. fetch_entry env True verbose entry processed w
        = (Inr (processed @ map (\<lambda>k. (1, fetch_image env (Some (drawn env urls k))))
                              [draws w..<draws w + nat (fst entry)]), w')
      \<and> draws w' = draws w + nat (fst entry) \<and> files w' = files w"
proof -
  from fetch_basic_land_image_urls_found [OF assms(2), of verbose w]
  obtain w1 where w1: "fetch_basic_land_image_urls env (snd entry) verbose w = (Inr (Some urls), w1)"
      "draws w1 = draws w" "files w1 = files w"
    by blast
  have len: "length (range0 (fst entry)) = nat (fst entry)"
    by (simp add: range0_def)
  from fetch_land_copies [OF assms(3), of "range0 (fst entry)" env verbose entry processed w1]
  obtain w' where w': "for_io (range0 (fst entry)) (fetch_land_copy env verbose entry (Some urls))
        processed w1
        = (Inr (processed @ map (\<lambda>k. (1, fetch_image env (Some (drawn env urls k))))
                              [draws w..<draws w + nat (fst entry)]), w')"
      "draws w' = draws w + nat (fst entry)" "files w' = files w"
    unfolding len w1(2,3) by blast
  have "fetch_entry env True verbose entry processed w
      = for_io (range0 (fst entry)) (fetch_land_copy env verbose entry (Some urls)) processed w1"
    using assms(1) by (simp add: fetch_entry_def and_then_def w1(1))
  with w' show ?thesis
    by simp
qed

text \<open>
  C6. With land randomisation on, an entry of quantity \<open>N\<close> for a basic land whose
  lookup returns a pool of at least one URL is replaced by exactly \<open>N\<close> entries of
  quantity 1, the image of each fetched from a URL of the pool; every copy has a draw of
  its own, so the same URL may be taken more than once.
\<close>

theorem randomised_land_entries:
  assumes "is_basic_land (snd entry)"
    and "land_image_urls env (snd entry) = Inr (Some urls)"
    and "1 \<le> length urls"
  shows "\<exists>new w'. fetch_entry env True verbose entry processed w = (Inr (processed @ new), w')
      \<and> length new = nat (fst entry)
      \<and> (\<forall>r \<in> set new. fst r = 1 \<and> (\<exists>url \<in> set urls. snd r = fetch_image env (Some url)))
      \<and> draws w' = draws w + nat (fst entry)"
proof -
  from assms(3) have pool: "urls \<noteq> []"
    by auto
  define new where "new = map (\<lambda>k. (1 :: int, fetch_image env (Some (drawn env urls k))))
    [draws w..<draws w + nat (fst entry)]"
  from fetch_entry_land [OF assms(1,2) pool, of verbose processed w] obtain w' where
    "fetch_entry env True verbose entry processed w = (Inr (processed @ new), w')"
    "draws w' = draws w + nat (fst entry)"
    unfolding new_def by blast
  moreover have "length new = nat (fst entry)"
    by (simp add: new_def)
  moreover have "\<forall>r \<in> set new. fst r = 1 \<and> (\<exists>url \<in> set urls. snd r = fetch_image env (Some url))"
    using drawn_in_pool [OF pool, of env] by (auto simp: new_def)
  ultimately show ?thesis by blast
qed

theorem randomised_land_entries_witness:
  "fetch_entry demo_env True False (3, ''Plains'') [] fresh_world
     = (Inr [(1, Some white_card), (1, Some red_card), (1, Some white_card)],
        fresh_world\<lparr>draws := 3\<rparr>)"
proof -
  have land: "is_basic_land (snd (3 :: int, ''Plains''))"
    by (simp add: is_basic_land_def)
  have pool: "land_image_urls demo_env (snd (3 :: int, ''Plains''))
      = Inr (Some [''plains1.jpg'', ''plains2.jpg''])"
    by (simp add: demo_env_def)
  have some: "1 \<le> length [''plains1.jpg'', ''plains2.jpg'']"
    by simp
  from randomised_land_entries [OF land pool some, of False "[]" fresh_world]
  show ?thesis
    by (simp add: fetch_entry_def fetch_basic_land_image_urls_def fetch_land_copy_def
        choice_def fetch_image_def and_then_def when_verbose_def return_io_def range0_def
        is_basic_land_def demo_env_def fresh_world_def eval_nat_numeral)
qed

text \<open>
  C10. With land randomisation on, a copy of a basic land whose drawn URL gives no image
  does not raise \<open>UnavailableCardImageException\<close>: the entry is resolved without an
  exception, and the copy becomes an entry of quantity 1 whose image is \<open>None\<close>.
\<close>

theorem randomised_land_missing_image:
  assumes "is_basic_land (snd entry)"
    and "land_image_urls env (snd entry) = Inr (Some urls)"
    and "urls \<noteq> []"
  shows "\<exists>new w'. fetch_entry env True verbose entry processed w = (Inr (processed @ new), w')
      \<and> length new = nat (fst entry)
      \<and> (\<forall>i < nat (fst entry).
            fetch_image env (Some (drawn env urls (draws w + i))) = None \<longrightarrow> new ! i = (1, None))"
proof -
  define new where "new = map (\<lambda>k. (1 :: int, fetch_image env (Some (drawn env urls k))))
    [draws w..<draws w + nat (fst entry)]"
  from fetch_entry_land [OF assms, of verbose processed w] obtain w' where
    "fetch_entry env True verbose entry processed w = (Inr (processed @ new), w')"
    unfolding new_def by blast
  moreover have "length new = nat (fst entry)"
    by (simp add: new_def)
  moreover have "new ! i = (1, None)"
    if "i < nat (fst entry)" "fetch_image env (Some (drawn env urls (draws w + i))) = None" for i
    using that by (simp add: new_def)
  ultimately show ?thesis by blast
qed

theorem randomised_land_missing_image_witness:
  "fetch_entry demo_env True False (2, ''Swamp'') [] fresh_world
     = (Inr [(1, None), (1, None)], fresh_world\<lparr>draws := 2\<rparr>)"
proof -
  have land: "is_basic_land (snd (2 :: int, ''Swamp''))"
    by (simp add: is_basic_land_def)
  have pool: "land_image_urls demo_env (snd (2 :: int, ''Swamp'')) = Inr (Some [''gone.jpg''])"
    by (simp add: demo_env_def)
  have some: "[''gone.jpg''] \<noteq> []"
    by simp
  from randomised_land_missing_image [OF land pool some, of False "[]" fresh_world]
  show ?thesis
    by (simp add: fetch_entry_def fetch_basic_land_image_urls_def fetch_land_copy_def
        choice_def fetch_image_def and_then_def when_verbose_def return_io_def range0_def
        is_basic_land_def demo_env_def fresh_world_def cardback_url_def eval_nat_numeral)
qed

text \<open>
  The other branch, for a card that is not a randomised basic land: no image raises
  \<open>UnavailableCardImageException\<close>.
\<close>

lemma fetch_entry_unavailable:
  assumes "\<not> (is_basic_land (snd entry) \<and> randomise_lands)"
    and "card_image_url env (snd entry) = Inr url"
    and "fetch_image env url = None"
  shows "fst (fetch_entry env randomise_lands verbose entry processed w)
     = Inl (UnavailableCardImageException
         (''Could not find an image for card: '' @ [CHR 0x27] @ snd entry @ [CHR 0x27] @ ''!''))"
proof -
  from assms(1) have branch: "(is_basic_land (snd entry) \<and> randomise_lands) = False"
    by simp
  show ?thesis
    unfolding fetch_entry_def branch
    using assms(2,3)
    by (simp add: fetch_card_image_url_def and_then_def when_verbose_def print_line_def
        return_io_def raise_def)
qed

text \<open>
  C7. Nothing guards the draw. With land randomisation on, one Forest whose lookup
  returns the empty list makes \<open>choice\<close> index the empty pool (\<open>IndexError\<close>), and
  one Island whose lookup returns \<open>None\<close> makes it take the length of \<open>None\<close>
  (\<open>TypeError\<close>); neither exception is caught.
\<close>

theorem draw_from_empty_pool:
  "fetch_images demo_env [(1, ''Forest'')] True False fresh_world = (Inl IndexError, fresh_world)
   \<and> fetch_images demo_env [(1, ''Island'')] True False fresh_world = (Inl TypeError, fresh_world)
   \<and> main demo_env False True [''good.dec'', ''zero.dec''] fresh_world
       = (Inl IndexError,
          fresh_world\<lparr>stdout := [''Processing deck '' @ [CHR 0x27] @ ''good.dec'' @ [CHR 0x27] @ ''...'',
            ''Fetching images... this may take a while!'']\<rparr>)"
proof -
  have forest: "fetch_images demo_env [(n, ''Forest'')] True False w
      = (if 0 < n then (Inl IndexError, w) else (Inr [], w))" for n w
    by (cases "nat n")
      (simp_all add: fetch_images_def fetch_entry_def fetch_basic_land_image_urls_def
        fetch_land_copy_def choice_def and_then_def when_verbose_def return_io_def range0_def
        is_basic_land_def demo_env_def upt_rec)
  have island: "fetch_images demo_env [(1, ''Island'')] True False fresh_world
      = (Inl TypeError, fresh_world)"
    by (simp add: fetch_images_def fetch_entry_def fetch_basic_land_image_urls_def
        fetch_land_copy_def choice_def and_then_def when_verbose_def return_io_def range0_def
        is_basic_land_def demo_env_def)
  have "main demo_env False True [''good.dec'', ''zero.dec''] fresh_world
       = (Inl IndexError,
          fresh_world\<lparr>stdout := [''Processing deck '' @ [CHR 0x27] @ ''good.dec'' @ [CHR 0x27] @ ''...'',
            ''Fetching images... this may take a while!'']\<rparr>)"
    by (simp add: main_def process_deck_def and_then_def when_verbose_def return_io_def
        print_line_def raise_def read_deck_good forest fresh_world_def)
  with forest [of 1 fresh_world] island show ?thesis
    by simp
qed

section \<open>Properties of the orchestrator\<close>

lemma keeps_files_return: "keeps_files (return_io a)"
  by (simp add: keeps_files_def return_io_def)

lemma keeps_files_raise: "keeps_files (raise e)"
  by (simp add: keeps_files_def raise_def)

lemma keeps_files_print_line: "keeps_files (print_line l)"
  by (simp add: keeps_files_def print_line_def)

lemma keeps_files_choice: "keeps_files (choice env urls)"
  by (simp add: keeps_files_def choice_def split: option.split list.split)

lemma keeps_files_and_then:
  assumes "keeps_files m" and "\<And>a. keeps_files (f a)"
  shows "keeps_files (and_then m f)"
  unfolding keeps_files_def
proof
  fix w
  obtain r w1 where m: "m w = (r, w1)"
    by (cases "m w")
  with assms(1) have w1: "files w1 = files w"
    by (auto simp: keeps_files_def dest: spec [of _ w])
  show "files (snd (and_then m f w)) = files w"
  proof (cases r)
    case (Inl e)
    with m w1 show ?thesis by (simp add: and_then_def)
  next
    case (Inr a)
    from assms(2) [of a] have "files (snd (f a w1)) = files w1"
      by (simp add: keeps_files_def)
    with Inr m w1 show ?thesis by (simp add: and_then_def)
  qed
qed

lemma keeps_files_when_verbose: "keeps_files m \<Longrightarrow> keeps_files (when_verbose verbose m)"
  by (simp add: when_verbose_def keeps_files_return)

lemma keeps_files_for_io:
  assumes "\<And>a s. keeps_files (body a s)"
  shows "keeps_files (for_io xs body s)"
  unfolding keeps_files_def
proof
  fix w
  show "files (snd (for_io xs body s w)) = files w"
  proof (induction xs arbitrary: s w)
    case Nil
    show ?case by simp
  next
    case (Cons a xs)
    obtain r w1 where b: "body a s w = (r, w1)"
      by (cases "body a s w")
    from assms [of a s] b have w1: "files w1 = files w"
      by (auto simp: keeps_files_def dest: spec [of _ w])
    show ?case
    proof (cases r)
      case (Inl e)
      with b w1 show ?thesis by simp
    next
      case (Inr s')
      with b w1 Cons.IH [of s' w1] show ?thesis by simp
    qed
  qed
qed

lemma keeps_files_fetch_land_copy:
  "keeps_files (fetch_land_copy env verbose entry urls i processed)"
  unfolding fetch_land_copy_def
  by (intro keeps_files_and_then keeps_files_choice keeps_files_when_verbose
      keeps_files_print_line keeps_files_return)

lemma keeps_files_fetch_basic_land_image_urls:
  "keeps_files (fetch_basic_land_image_urls env card_name verbose)"
  unfolding fetch_basic_land_image_urls_def
  by (auto split: sum.split option.split
      intro!: keeps_files_and_then keeps_files_when_verbose keeps_files_print_line
        keeps_files_return keeps_files_raise keeps_files_for_io)

lemma keeps_files_fetch_card_image_url: "keeps_files (fetch_card_image_url env card_name)"
  unfolding fetch_card_image_url_def
  by (auto split: sum.split intro: keeps_files_return keeps_files_raise)

lemma keeps_files_fetch_entry:
  "keeps_files (fetch_entry env randomise_lands verbose entry processed)"
  unfolding fetch_entry_def
  by (auto split: option.split
      intro!: keeps_files_and_then keeps_files_when_verbose keeps_files_print_line
        keeps_files_return keeps_files_raise keeps_files_for_io keeps_files_fetch_land_copy
        keeps_files_fetch_basic_land_image_urls keeps_files_fetch_card_image_url)

lemma keeps_files_fetch_images: "keeps_files (fetch_images env entries randomise_lands verbose)"
  unfolding fetch_images_def
  by (intro keeps_files_for_io keeps_files_fetch_entry)

lemma pretty_print_deck_lines:
  "pretty_print_deck entries w
     = (Inr (), w\<lparr>stdout := stdout w
          @ map (\<lambda>entry. str_int (fst entry) @ '' x '' @ [CHR 0x27] @ snd entry @ [CHR 0x27]) entries\<rparr>)"
  unfolding pretty_print_deck_def by (rule print_lines)

lemma process_deck_fetch:
  assumes "read_deck env deck = Inr entries"
  shows "process_deck env verbose randomise_lands deck w
     = (case fetch_images env entries randomise_lands verbose
               (w\<lparr>stdout := stdout w @ announce verbose deck entries\<rparr>) of
          (Inl (UnavailableCardImageException msg), w') \<Rightarrow>
            (case str_exception msg of
               Inl e \<Rightarrow> (Inl e, w')
             | Inr text \<Rightarrow> print_line (''[ERROR] '' @ text) w')
        | (Inl e, w') \<Rightarrow> (Inl e, w')
        | (Inr resolved, w') \<Rightarrow>
            and_then (print_line ''Exporting Tabletop Simulator deck faces...'')
              (\<lambda>_. export_deck env resolved (before_dot deck) verbose) w')"
  using assms
  by (simp add: process_deck_def and_then_def when_verbose_def return_io_def print_line_def
      pretty_print_deck_lines announce_def)

lemma fetch_images_saves_nothing:
  "fetch_images env entries randomise_lands verbose w = (r, w') \<Longrightarrow> files w' = files w"
  using keeps_files_fetch_images [of env entries randomise_lands verbose]
  by (auto simp: keeps_files_def dest: spec [of _ w])

text \<open>
  When the message of the exception is ASCII, the handler prints the error line and the
  loop goes on: no file has been saved for the deck, and the decks that follow are
  processed.
\<close>

lemma ascii_message_skips_deck:
  assumes "read_deck env deck = Inr entries"
    and "fetch_images env entries randomise_lands verbose
           (w\<lparr>stdout := stdout w @ announce verbose deck entries\<rparr>)
         = (Inl (UnavailableCardImageException msg), w')"
    and "list_all (\<lambda>c. (of_char c :: nat) < 128) msg"
  shows "process_deck env verbose randomise_lands deck w
           = (Inr (), w'\<lparr>stdout := stdout w' @ [''[ERROR] '' @ msg]\<rparr>)
     \<and> files (w'\<lparr>stdout := stdout w' @ [''[ERROR] '' @ msg]\<rparr>) = files w
     \<and> main env verbose randomise_lands (deck # rest) w
           = main env verbose randomise_lands rest (w'\<lparr>stdout := stdout w' @ [''[ERROR] '' @ msg]\<rparr>)"
proof -
  have body: "process_deck env verbose randomise_lands deck w
      = (Inr (), w'\<lparr>stdout := stdout w' @ [''[ERROR] '' @ msg]\<rparr>)"
    by (simp add: process_deck_fetch [OF assms(1)] assms(2,3) str_exception_def print_line_def)
  from fetch_images_saves_nothing [OF assms(2)] have saved: "files w' = files w"
    by simp
  have "main env verbose randomise_lands (deck # rest) w
      = main env verbose randomise_lands rest (w'\<lparr>stdout := stdout w' @ [''[ERROR] '' @ msg]\<rparr>)"
    by (simp add: main_def body)
  with body saved show ?thesis
    by simp
qed

text \<open>
  When the message has a code point of 128 or more, the handler raises
  \<open>UnicodeEncodeError\<close> before it prints: the exception leaves the loop, and the decks
  that follow are not processed.
\<close>

lemma non_ascii_message_aborts_run:
  assumes "read_deck env deck = Inr entries"
    and "fetch_images env entries randomise_lands verbose
           (w\<lparr>stdout := stdout w @ announce verbose deck entries\<rparr>)
         = (Inl (UnavailableCardImageException msg), w')"
    and "\<not> list_all (\<lambda>c. (of_char c :: nat) < 128) msg"
  shows "process_deck env verbose randomise_lands deck w = (Inl UnicodeEncodeError, w')
     \<and> main env verbose randomise_lands (deck # rest) w = (Inl UnicodeEncodeError, w')"
proof -
  have body: "process_deck env verbose randomise_lands deck w = (Inl UnicodeEncodeError, w')"
    by (simp add: process_deck_fetch [OF assms(1)] assms(2,3) str_exception_def)
  then show ?thesis
    by (simp add: main_def)
qed

lemma read_deck_bad: "read_deck demo_env ''bad.dec'' = Inr [(1, ''Black Lotus'')]"
  by (simp add: read_deck_def demo_env_def data_lines_def startswith_def strip_def isspace_def
      read_line_def split_space1_def py_int_def isdigit_def digits_value_def Let_def)

lemma fetch_images_bad:
  "fetch_images demo_env [(1, ''Black Lotus'')] False False w
     = (Inl (UnavailableCardImageException
          (''Could not find an image for card: '' @ [CHR 0x27] @ ''Black Lotus'' @ [CHR 0x27] @ ''!'')), w)"
  by (simp add: fetch_images_def fetch_entry_def fetch_card_image_url_def fetch_image_def
      and_then_def when_verbose_def return_io_def raise_def is_basic_land_def demo_env_def)

lemma fetch_images_good:
  "fetch_images demo_env [(2, ''Forest'')] False False w = (Inr [(2, Some white_card)], w)"
  by (simp add: fetch_images_def fetch_entry_def fetch_card_image_url_def fetch_image_def
      and_then_def when_verbose_def return_io_def raise_def is_basic_land_def demo_env_def)

lemma open_image_cardback: "open_image demo_env cardback_url = Inr blue_back"
  by (simp add: demo_env_def cardback_url_def)

lemma split_good:
  "split_deck_if_necessary [(2 :: int, Some white_card)] = [[(2, Some white_card)]]"
  by (simp add: split_deck_if_necessary_def split_step_def no_of_cards_def)

lemma stitch_cards_good:
  "stitch_cards False [(2, Some white_card)] stitch_init
     = Inr \<lparr>deck_face = \<lparr>canvas_width = 3120, canvas_height = 3115,
               pastes = [(white_card, 0, 0), (white_card, 312, 0)]\<rparr>,
            current_card_count = 3, cur_x = 624, cur_y = 0, verbose_count = 0\<rparr>"
  by (simp add: stitch_cards_def stitch_card_def stitch_init_def new_image_def paste_def range0_def
      CARDS_PER_ROW_def CARDS_PER_COLUMN_def CARD_WIDTH_def CARD_HEIGHT_def Let_def
      eval_nat_numeral)

text \<open>
  A run over two decks with ASCII names: the card of the first has no image, the second
  deck is exported.
\<close>

lemma ascii_message_run:
  "main demo_env False False [''bad.dec'', ''good.dec''] fresh_world
     = (Inr (),
        \<lparr>stdout =
           [''Processing deck '' @ [CHR 0x27] @ ''bad.dec'' @ [CHR 0x27] @ ''...'',
            ''Fetching images... this may take a while!'',
            ''[ERROR] Could not find an image for card: '' @ [CHR 0x27] @ ''Black Lotus''
              @ [CHR 0x27] @ ''!'',
            ''Processing deck '' @ [CHR 0x27] @ ''good.dec'' @ [CHR 0x27] @ ''...'',
            ''Fetching images... this may take a while!'',
            ''Exporting Tabletop Simulator deck faces...'',
            ''Deck face n. 0 size: 2.''],
         draws = 0,
         files =
           [(''good_0.jpg'',
             \<lparr>canvas_width = 3120, canvas_height = 3115,
              pastes = [(white_card, 0, 0), (white_card, 312, 0),
                        (resize demo_env blue_back (312, 445), 2808, 2670)]\<rparr>)]\<rparr>)"
  by (simp add: main_def process_deck_def export_deck_def export_sheet_def stitch_deck_def
      and_then_def when_verbose_def return_io_def raise_def print_line_def save_def paste_def
      read_deck_bad fetch_images_bad read_deck_good fetch_images_good split_good
      stitch_cards_good str_exception_def fresh_world_def before_dot_def no_of_cards_def
      str_int_def str_nat.simps CARDS_PER_ROW_def CARDS_PER_COLUMN_def CARD_WIDTH_def
      CARD_HEIGHT_def open_image_cardback)

lemma read_deck_aether:
  "read_deck demo_env ''aether.dec'' = Inr [(1, CHR 0xC6 # ''ther Vial'')]"
  by (simp add: read_deck_def demo_env_def data_lines_def startswith_def strip_def isspace_def
      read_line_def split_space1_def py_int_def isdigit_def digits_value_def Let_def)

lemma fetch_images_aether:
  "fetch_images demo_env [(1, CHR 0xC6 # ''ther Vial'')] False False w
     = (Inl (UnavailableCardImageException
          (''Could not find an image for card: '' @ [CHR 0x27] @ CHR 0xC6 # ''ther Vial''
             @ [CHR 0x27] @ ''!'')), w)"
  by (simp add: fetch_images_def fetch_entry_def fetch_card_image_url_def fetch_image_def
      and_then_def when_verbose_def return_io_def raise_def is_basic_land_def demo_env_def)

text \<open>
  C8. The handler of \<open>UnavailableCardImageException\<close> does not isolate every deck. The
  deck \<open>aether.dec\<close> holds one \<open>\<AE>ther Vial\<close>, for which no image is found;
  \<open>good.dec\<close> follows it. The resolution raises \<open>UnavailableCardImageException\<close>, the
  handler formats the exception, \<open>str\<close> raises \<open>UnicodeEncodeError\<close> on the name, and
  the run ends there: no error line is printed and \<open>good.dec\<close> is never processed.
\<close>

theorem unavailable_image_aborts_run:
  "fetch_images demo_env [(1, CHR 0xC6 # ''ther Vial'')] False False fresh_world
     = (Inl (UnavailableCardImageException
          (''Could not find an image for card: '' @ [CHR 0x27] @ CHR 0xC6 # ''ther Vial''
             @ [CHR 0x27] @ ''!'')), fresh_world)
   \<and> main demo_env False False [''aether.dec'', ''good.dec''] fresh_world
     = (Inl UnicodeEncodeError,
        \<lparr>stdout =
           [''Processing deck '' @ [CHR 0x27] @ ''aether.dec'' @ [CHR 0x27] @ ''...'',
            ''Fetching images... this may take a while!''],
         draws = 0, files = []\<rparr>)"
  by (simp add: main_def process_deck_def and_then_def when_verbose_def return_io_def
      print_line_def read_deck_aether fetch_images_aether str_exception_def fresh_world_def)

end
